theory Spec2Isabelle
  imports Main "HOL-Library.AList" "HOL-Library.Sublist"
begin

section \<open>The routing table and the module state\<close>

text \<open>
  \<^verbatim>\<open>mappings\<close> is a JavaScript object \<^verbatim>\<open>{ "/endpoint": port }\<close>. It is modelled as an
  association list in property order: \<^verbatim>\<open>Object.keys\<close> is \<open>map fst\<close>, \<^verbatim>\<open>mappings[k]\<close> is
  \<open>map_of\<close> (\<open>None\<close> for \<^verbatim>\<open>undefined\<close>), \<^verbatim>\<open>mappings[k] = v\<close> is \<open>AList.update\<close> (an
  existing key keeps its place, a new key goes last), \<^verbatim>\<open>delete mappings[k]\<close> is
  \<open>AList.delete\<close>, and \<^verbatim>\<open>mappings.hasOwnProperty(k)\<close> holds when \<open>map_of\<close> is not \<open>None\<close>.
  Strings are lists of 8-bit characters: code units above 255 are outside the model.
\<close>

type_synonym table = "(string \<times> int) list"

text \<open>
  A table read from the file can own any key, also one that is not an endpoint the admin
  server would store; its values are taken to be integers.

  The module-level state: the table, the page read from \<^verbatim>\<open>index.html\<close> at start-up, the
  content of \<^verbatim>\<open>endpoint_port_mappings.json\<close> (\<open>Some t\<close> when the file holds the JSON text
  of \<open>t\<close>, \<open>None\<close> when there is no file or it holds no such text) and the number of
  times \<^verbatim>\<open>fs.writeFileSync\<close> has written it to the end.
\<close>

record server =
  mappings :: table
  html :: string
  disk :: "table option"
  writes :: nat

datatype error = SyntaxError | TypeError | WriteError

text \<open>
  What \<^verbatim>\<open>fs.writeFileSync\<close> does when it is called is the file system's answer, a parameter
  of the admin server: it writes the file, or it throws and leaves the file with some
  content (the old one when the file could not be opened, none when it was cut short).
\<close>

datatype disk_write = Written | Failed "table option"

text \<open>\<^verbatim>\<open>saveMappings()\<close>: the error thrown, if any, and the state it leaves.\<close>

definition saveMappings :: "disk_write \<Rightarrow> server \<Rightarrow> error option \<times> server" where
  "saveMappings writeFileSync s =
     (case writeFileSync of
        Written \<Rightarrow> (None, s\<lparr>disk := Some (mappings s), writes := Suc (writes s)\<rparr>)
      | Failed left \<Rightarrow> (Some WriteError, s\<lparr>disk := left\<rparr>))"

section \<open>findEndpoint\<close>

text \<open>
  The test of both loops: \<^verbatim>\<open>path === endpoint || path.startsWith(endpoint + '/')\<close>.
\<close>

definition path_matches :: "string \<Rightarrow> string \<Rightarrow> bool" where
  "path_matches path endpoint \<longleftrightarrow> path = endpoint \<or> prefix (endpoint @ ''/'') path"

text \<open>
  \<^verbatim>\<open>Object.keys(mappings).sort((a, b) => b.length - a.length)\<close>: a stable sort by
  descending length.
\<close>

definition sortedEndpoints :: "table \<Rightarrow> string list" where
  "sortedEndpoints t = sort_key (\<lambda>e. - int (length e)) (map fst t)"

record match =
  match_endpoint :: string
  match_port :: "int option"
  matchedByPath :: bool

text \<open>
  \<^verbatim>\<open>new URL(referer).pathname\<close> is the platform's URL parser, not code of this program:
  it is the parameter \<open>pathname\<close>, \<open>None\<close> where the constructor throws (the
  \<^verbatim>\<open>catch {}\<close> then falls through to \<^verbatim>\<open>return null\<close>). \<^verbatim>\<open>if (referer)\<close> holds for a
  non-empty string.
\<close>

definition findEndpoint ::
  "(string \<Rightarrow> string option) \<Rightarrow> table \<Rightarrow> string \<Rightarrow> string \<Rightarrow> match option" where
  "findEndpoint pathname t path referer =
     (case find (path_matches path) (sortedEndpoints t) of
        Some e \<Rightarrow> Some \<lparr>match_endpoint = e, match_port = map_of t e, matchedByPath = True\<rparr>
      | None \<Rightarrow>
          if referer \<noteq> [] then
            (case pathname referer of
               None \<Rightarrow> None
             | Some refPath \<Rightarrow>
                 (case find (path_matches refPath) (sortedEndpoints t) of
                    Some e \<Rightarrow>
                      Some \<lparr>match_endpoint = e, match_port = map_of t e, matchedByPath = False\<rparr>
                  | None \<Rightarrow> None))
          else None)"

section \<open>The proxy server\<close>

text \<open>
  A request as the handler reads it: the method, \<^verbatim>\<open>parsedUrl.pathname\<close>,
  \<^verbatim>\<open>parsedUrl.search\<close>, and the two headers \<^verbatim>\<open>referer\<close> and \<^verbatim>\<open>referrer\<close> (\<open>None\<close> when
  absent).
\<close>

record proxy_request =
  req_method :: string
  req_path :: string
  req_search :: string
  hdr_referer :: "string option"
  hdr_referrer :: "string option"

datatype payload = Text string | StatusJson "(string \<times> int \<times> bool) list"

record response =
  status :: nat
  content_type :: "string option"
  body :: payload

text \<open>
  What the proxy does with a request: answer it itself, or open
  \<^verbatim>\<open>http://localhost:${port}${targetPath}${search}\<close> with the request's method and pipe
  the two streams (a backend error is then answered with 502).
\<close>

record target =
  target_port :: "int option"
  target_path :: string
  target_search :: string
  target_method :: string

datatype proxy_action = Respond response | Forward target

definition not_found :: response where
  "not_found = \<lparr>status = 404, content_type = Some ''text/plain'', body = Text ''Not Found''\<rparr>"

text \<open>\<^verbatim>\<open>req.headers.referer || req.headers.referrer || ''\<close>\<close>

definition referer_of :: "proxy_request \<Rightarrow> string" where
  "referer_of req =
     (case hdr_referer req of
        Some r \<Rightarrow> if r \<noteq> [] then r
                  else (case hdr_referrer req of Some r' \<Rightarrow> r' | None \<Rightarrow> [])
      | None \<Rightarrow> (case hdr_referrer req of Some r' \<Rightarrow> r' | None \<Rightarrow> []))"

text \<open>\<^verbatim>\<open>matchedByPath ? (path.slice(endpoint.length) || '/') : path\<close>\<close>

definition targetPath :: "match \<Rightarrow> string \<Rightarrow> string" where
  "targetPath m path =
     (if matchedByPath m
      then (let rest = drop (length (match_endpoint m)) path in if rest = [] then ''/'' else rest)
      else path)"

definition proxyServer ::
  "(string \<Rightarrow> string option) \<Rightarrow> server \<Rightarrow> proxy_request \<Rightarrow> proxy_action" where
  "proxyServer pathname s req =
     (let path = req_path req; referer = referer_of req in
      if path = ''/gui'' \<or> prefix ''/gui/'' path then Respond not_found
      else
        (case findEndpoint pathname (mappings s) path referer of
           Some m \<Rightarrow>
             Forward \<lparr>target_port = match_port m, target_path = targetPath m path,
                      target_search = req_search req, target_method = req_method req\<rparr>
         | None \<Rightarrow> Respond not_found))"

section \<open>JSON values and the JavaScript operations applied to them\<close>

text \<open>
  The value \<^verbatim>\<open>JSON.parse\<close> returns. A number is kept as the string that JavaScript's
  number-to-string conversion prints for it (\<^verbatim>\<open>70000\<close>, \<^verbatim>\<open>80.5\<close>, \<^verbatim>\<open>1e+21\<close>, \<^verbatim>\<open>Infinity\<close>): the
  handlers do nothing with a number but convert it to a string (\<^verbatim>\<open>parseInt\<close> and \<^verbatim>\<open>String\<close>
  both start so) and compare it with a string literal by \<^verbatim>\<open>===\<close>, which is false for
  every number. The members of an object are kept in the order of the text, and the
  last one of a repeated name is the object's property. \<^verbatim>\<open>undefined\<close> is \<open>None\<close> of
  \<open>json option\<close>.
\<close>

datatype json =
  JNull | JBool bool | JNum string | JStr string | JArr "json list"
  | JObj "(string \<times> json) list"

text \<open>
  \<^verbatim>\<open>data.name\<close> for a value other than \<^verbatim>\<open>null\<close> (where it throws) and for the names the
  handler reads: none of them is a property of a string, a number, a boolean or an array.
\<close>

definition property :: "json \<Rightarrow> string \<Rightarrow> json option" where
  "property data name = (case data of JObj members \<Rightarrow> map_of (rev members) name | _ \<Rightarrow> None)"

text \<open>
  The decimal numeral of a natural number. It is what the conversion prints for an
  integer-valued number from 0 to below \<open>10 ^ 21\<close>; the statements below use it for ports
  from 1 to 65535 only.
\<close>

definition digit_char :: "nat \<Rightarrow> char" where
  "digit_char d = ''0123456789'' ! d"

fun digits_of :: "nat \<Rightarrow> string" where
  "digits_of n =
     (if n < 10 then [digit_char n] else digits_of (n div 10) @ [digit_char (n mod 10)])"

declare digits_of.simps [simp del]

text \<open>\<^verbatim>\<open>Array.prototype.join\<close> with the separator \<^verbatim>\<open>,\<close> over parts already converted.\<close>

fun join_comma :: "string list \<Rightarrow> string" where
  "join_comma [] = []"
| "join_comma [x] = x"
| "join_comma (x # y # ys) = x @ '','' @ join_comma (y # ys)"

fun sequence :: "'a option list \<Rightarrow> 'a list option" where
  "sequence [] = Some []"
| "sequence (None # xs) = None"
| "sequence (Some x # xs) = (case sequence xs of None \<Rightarrow> None | Some ys \<Rightarrow> Some (x # ys))"

text \<open>
  The abstract operation ToString on a parsed value; \<open>None\<close> is a thrown TypeError. An
  array joins its elements, \<^verbatim>\<open>null\<close> elements as empty strings. An object without a
  member named \<^verbatim>\<open>toString\<close> inherits the one that prints \<^verbatim>\<open>[object Object]\<close>; with such a
  member, which is never callable in parsed JSON, no conversion yields a primitive.
\<close>

fun ToString :: "json \<Rightarrow> string option" where
  "ToString JNull = Some ''null''"
| "ToString (JBool b) = Some (if b then ''true'' else ''false'')"
| "ToString (JNum printed) = Some printed"
| "ToString (JStr str) = Some str"
| "ToString (JArr xs) =
     map_option join_comma
       (sequence (map (\<lambda>x. if x = JNull then Some [] else ToString x) xs))"
| "ToString (JObj members) =
     (if map_of (rev members) ''toString'' = None then Some ''[object Object]'' else None)"

text \<open>
  White space and line terminators below code unit 256: TAB, LF, VT, FF, CR, SP, NBSP.
\<close>

definition StrWhiteSpaceChar :: "char \<Rightarrow> bool" where
  "StrWhiteSpaceChar c \<longleftrightarrow> (of_char c :: nat) \<in> {9, 10, 11, 12, 13, 32, 160}"

definition trim :: "string \<Rightarrow> string" where
  "trim str = rev (dropWhile StrWhiteSpaceChar (rev (dropWhile StrWhiteSpaceChar str)))"

text \<open>
  The upper-case letters below code unit 256 are A to Z and the Latin-1 letters 192 to
  222 without the multiplication sign 215; each has its lower case 32 above.
\<close>

definition lower_char :: "char \<Rightarrow> char" where
  "lower_char c =
     (let n = (of_char c :: nat) in
      if (65 \<le> n \<and> n \<le> 90) \<or> (192 \<le> n \<and> n \<le> 222 \<and> n \<noteq> 215) then char_of (n + 32) else c)"

definition toLowerCase :: "string \<Rightarrow> string" where
  "toLowerCase str = map lower_char str"

text \<open>
  \<^verbatim>\<open>parseInt(x)\<close> without a radix: ToString, skip leading white space, an optional sign,
  an optional \<^verbatim>\<open>0x\<close> or \<^verbatim>\<open>0X\<close> that selects radix 16, then the longest run of digits of
  the radix; \<open>None\<close> is \<^verbatim>\<open>NaN\<close>. What follows the digits is ignored. (The value is exact
  here; JavaScript rounds it to a double, which changes nothing for values up to
  \<open>2 ^ 53\<close>, keeps larger values larger than 65535, and keeps the sign.)
\<close>

definition digit_val :: "char \<Rightarrow> nat" where
  "digit_val c =
     (let n = (of_char c :: nat) in
      if 48 \<le> n \<and> n \<le> 57 then n - 48
      else if 97 \<le> n \<and> n \<le> 122 then n - 87
      else if 65 \<le> n \<and> n \<le> 90 then n - 55
      else 36)"

definition digits_value :: "nat \<Rightarrow> string \<Rightarrow> nat" where
  "digits_value R Z = foldl (\<lambda>acc c. acc * R + digit_val c) 0 Z"

definition parseInt_string :: "string \<Rightarrow> int option" where
  "parseInt_string inputString =
     (let S = dropWhile StrWhiteSpaceChar inputString;
          negative = prefix ''-'' S;
          S1 = (if prefix ''-'' S \<or> prefix ''+'' S then drop 1 S else S);
          hex = (prefix ''0x'' S1 \<or> prefix ''0X'' S1);
          R = (if hex then 16 else 10);
          S2 = (if hex then drop 2 S1 else S1);
          Z = takeWhile (\<lambda>c. digit_val c < R) S2
      in if Z = [] then None
         else Some (if negative then - int (digits_value R Z) else int (digits_value R Z)))"

definition parseInt :: "json option \<Rightarrow> error + int option" where
  "parseInt x =
     (case x of
        None \<Rightarrow> Inr (parseInt_string ''undefined'')
      | Some v \<Rightarrow> (case ToString v of None \<Rightarrow> Inl TypeError | Some str \<Rightarrow> Inr (parseInt_string str)))"

text \<open>\<^verbatim>\<open>/^\/[a-z0-9-_]+$/.test(endpoint)\<close>: the hyphen after the range \<^verbatim>\<open>0-9\<close> is literal.\<close>

definition class_char :: "char \<Rightarrow> bool" where
  "class_char c =
     (let n = (of_char c :: nat) in
      (97 \<le> n \<and> n \<le> 122) \<or> (48 \<le> n \<and> n \<le> 57) \<or> c = CHR ''-'' \<or> c = CHR ''_'')"

definition endpoint_regex :: "string \<Rightarrow> bool" where
  "endpoint_regex str =
     (case str of [] \<Rightarrow> False | c # rest \<Rightarrow> c = CHR ''/'' \<and> rest \<noteq> [] \<and> list_all class_char rest)"

text \<open>\<^verbatim>\<open>if (!s.startsWith('/')) s = '/' + s\<close>\<close>

definition with_slash :: "string \<Rightarrow> string" where
  "with_slash str = (if prefix ''/'' str then str else CHR ''/'' # str)"

section \<open>The admin server of index.js\<close>

text \<open>
  A request as the handler reads it: the method, \<^verbatim>\<open>parsedUrl.pathname\<close> and, for an
  update, what \<^verbatim>\<open>JSON.parse(body)\<close> returns once the body has arrived (\<open>None\<close> when it
  throws a SyntaxError).
\<close>

record gui_request =
  gui_method :: string
  gui_path :: string
  gui_body :: "json option"

definition respond_text :: "nat \<Rightarrow> string \<Rightarrow> response" where
  "respond_text code msg = \<lparr>status = code, content_type = Some ''text/plain'', body = Text msg\<rparr>"

definition respond_bare :: "nat \<Rightarrow> string \<Rightarrow> response" where
  "respond_bare code msg = \<lparr>status = code, content_type = None, body = Text msg\<rparr>"

text \<open>
  \<^verbatim>\<open>isNaN(port)\<close> is the case \<open>None\<close> of the parsed port.
  How one action branch of the \<^verbatim>\<open>try\<close> block ends: it throws, it answers and returns, or
  it falls through to \<^verbatim>\<open>saveMappings()\<close> with the table it has built. Within a branch,
  every expression that can throw comes before the first assignment to \<^verbatim>\<open>mappings\<close>.
\<close>

datatype outcome = Threw error | Returned response | Done table

text \<open>\<^verbatim>\<open>x?.trim().toLowerCase()\<close>: \<^verbatim>\<open>undefined\<close> for a missing or \<^verbatim>\<open>null\<close> field, a
  TypeError for any other value that is not a string (it has no \<^verbatim>\<open>trim\<close>).\<close>

definition trim_toLowerCase :: "json option \<Rightarrow> error + string option" where
  "trim_toLowerCase x =
     (case x of
        None \<Rightarrow> Inr None
      | Some JNull \<Rightarrow> Inr None
      | Some (JStr str) \<Rightarrow> Inr (Some (toLowerCase (trim str)))
      | Some _ \<Rightarrow> Inl TypeError)"

definition add_action :: "json \<Rightarrow> table \<Rightarrow> outcome" where
  "add_action data t =
     (case trim_toLowerCase (property data ''endpoint'') of
        Inl err \<Rightarrow> Threw err
      | Inr None \<Rightarrow> Returned (respond_text 400 ''Invalid endpoint'')
      | Inr (Some e0) \<Rightarrow>
          if e0 = [] then Returned (respond_text 400 ''Invalid endpoint'')
          else
            (let e = with_slash e0 in
             if \<not> endpoint_regex e \<or> e = ''/gui''
             then Returned (respond_text 400 ''Invalid endpoint'')
             else
               (case parseInt (property data ''port'') of
                  Inl err \<Rightarrow> Threw err
                | Inr None \<Rightarrow> Returned (respond_text 400 ''Invalid port'')
                | Inr (Some port) \<Rightarrow>
                    if port < 1 \<or> port > 65535
                    then Returned (respond_text 400 ''Invalid port'')
                    else Done (AList.update e port t))))"

definition delete_action :: "json \<Rightarrow> table \<Rightarrow> outcome" where
  "delete_action data t =
     (case trim_toLowerCase (property data ''endpoint'') of
        Inl err \<Rightarrow> Threw err
      | Inr None \<Rightarrow> Returned (respond_text 400 ''Invalid endpoint'')
      | Inr (Some e0) \<Rightarrow>
          if e0 = [] then Returned (respond_text 400 ''Invalid endpoint'')
          else Done (AList.delete (with_slash e0) t))"

text \<open>
  \<^verbatim>\<open>mappings.hasOwnProperty(oldEndpoint)\<close> calls whatever the name \<^verbatim>\<open>hasOwnProperty\<close> gives
  on the table. A table that owns a key of that name gives that key's value, a number,
  and calling it throws a TypeError. Otherwise the inherited method answers, and it is
  false exactly when \<^verbatim>\<open>mappings[oldEndpoint]\<close> is \<^verbatim>\<open>undefined\<close>, so the test and the read of
  the value are one \<open>case\<close>.
\<close>

definition move_endpoint :: "string \<Rightarrow> string \<Rightarrow> table \<Rightarrow> outcome" where
  "move_endpoint oldEndpoint newEndpoint t =
     (if map_of t ''hasOwnProperty'' \<noteq> None then Threw TypeError
      else
        (case map_of t oldEndpoint of
           None \<Rightarrow> Returned (respond_text 404 ''Old endpoint not found'')
         | Some p \<Rightarrow> Done (AList.delete oldEndpoint (AList.update newEndpoint p t))))"

definition rename_action :: "json \<Rightarrow> table \<Rightarrow> outcome" where
  "rename_action data t =
     (case trim_toLowerCase (property data ''oldEndpoint'') of
        Inl err \<Rightarrow> Threw err
      | Inr old0 \<Rightarrow>
          (case trim_toLowerCase (property data ''newEndpoint'') of
             Inl err \<Rightarrow> Threw err
           | Inr new0 \<Rightarrow>
               (case (old0, new0) of
                  (Some old1, Some new1) \<Rightarrow>
                    if old1 = [] \<or> new1 = [] then Returned (respond_text 400 ''Invalid endpoint'')
                    else
                      (let oldEndpoint = with_slash old1; newEndpoint = with_slash new1 in
                       if \<not> endpoint_regex newEndpoint \<or> newEndpoint = ''/gui''
                       then Returned (respond_text 400 ''Invalid new endpoint'')
                       else move_endpoint oldEndpoint newEndpoint t)
                | _ \<Rightarrow> Returned (respond_text 400 ''Invalid endpoint''))))"

text \<open>
  The \<^verbatim>\<open>try\<close> block and its \<^verbatim>\<open>catch\<close>. Reading \<^verbatim>\<open>data.action\<close> throws when \<^verbatim>\<open>data\<close> is
  \<^verbatim>\<open>null\<close>. \<^verbatim>\<open>saveMappings()\<close> is called inside the \<^verbatim>\<open>try\<close>, after the table has been
  changed: when the write throws, the \<^verbatim>\<open>catch\<close> answers as for every other error and the
  table in memory keeps the change.
\<close>

definition finish :: "disk_write \<Rightarrow> server \<Rightarrow> outcome \<Rightarrow> response \<times> server" where
  "finish writeFileSync s out =
     (case out of
        Threw err \<Rightarrow> (respond_bare 400 ''Invalid JSON'', s)
      | Returned r \<Rightarrow> (r, s)
      | Done t \<Rightarrow>
          (case saveMappings writeFileSync (s\<lparr>mappings := t\<rparr>) of
             (None, s') \<Rightarrow> (respond_bare 200 ''OK'', s')
           | (Some err, s') \<Rightarrow> (respond_bare 400 ''Invalid JSON'', s')))"

definition update :: "disk_write \<Rightarrow> json option \<Rightarrow> server \<Rightarrow> response \<times> server" where
  "update writeFileSync parsed s =
     (case parsed of
        None \<Rightarrow> finish writeFileSync s (Threw SyntaxError)
      | Some data \<Rightarrow>
          finish writeFileSync s
            (if data = JNull then Threw TypeError
             else if property data ''action'' = Some (JStr ''add'') then add_action data (mappings s)
             else if property data ''action'' = Some (JStr ''delete'')
               then delete_action data (mappings s)
             else if property data ''action'' = Some (JStr ''rename'')
               then rename_action data (mappings s)
             else Done (mappings s)))"

text \<open>
  \<^verbatim>\<open>checkPortStatus\<close> asks the network; it is the parameter of the read operation, as
  \<open>writeFileSync\<close> is the parameter of the write operation.
\<close>

definition getMappingsWithStatus :: "(int \<Rightarrow> bool) \<Rightarrow> table \<Rightarrow> (string \<times> int \<times> bool) list" where
  "getMappingsWithStatus checkPortStatus t = map (\<lambda>(e, p). (e, p, checkPortStatus p)) t"

definition page :: "server \<Rightarrow> response" where
  "page s = \<lparr>status = 200, content_type = Some ''text/html'', body = Text (html s)\<rparr>"

definition guiServer ::
  "(int \<Rightarrow> bool) \<Rightarrow> disk_write \<Rightarrow> server \<Rightarrow> gui_request \<Rightarrow> response \<times> server" where
  "guiServer checkPortStatus writeFileSync s req =
     (let path = gui_path req in
      if path = ''/'' \<or> path = ''/gui'' then (page s, s)
      else if (path = ''/get'' \<or> path = ''/gui/get'') \<and> gui_method req = ''GET''
        then (\<lparr>status = 200, content_type = Some ''application/json'',
               body = StatusJson (getMappingsWithStatus checkPortStatus (mappings s))\<rparr>, s)
      else if (path = ''/update'' \<or> path = ''/gui/update'') \<and> gui_method req = ''POST''
        then update writeFileSync (gui_body req) s
      else (not_found, s))"

section \<open>The admin server of the refactored source (src/unnamed/part\_001)\<close>

text \<open>
  The second source file is the same program with the canonicalisation and the validity
  test moved into two functions, \<^verbatim>\<open>String(raw)\<close> in place of the optional call of
  \<^verbatim>\<open>trim\<close>, one message for every endpoint error, and without the \<^verbatim>\<open>/gui\<close> aliases of
  the admin paths. Its \<^verbatim>\<open>findEndpoint\<close> and proxy handler are those above.
\<close>

definition canonicalizeEndpoint :: "json option \<Rightarrow> error + string option" where
  "canonicalizeEndpoint raw =
     (case raw of
        None \<Rightarrow> Inr None
      | Some v \<Rightarrow>
          if v = JNull then Inr None
          else
            (case ToString v of
               None \<Rightarrow> Inl TypeError
             | Some str \<Rightarrow>
                 (let s = toLowerCase (trim str) in
                  if s = [] then Inr None else Inr (Some (with_slash s)))))"

definition isValidEndpoint :: "string \<Rightarrow> bool" where
  "isValidEndpoint endpoint \<longleftrightarrow> endpoint_regex endpoint \<and> endpoint \<noteq> ''/gui''"

definition add_action_part_001 :: "json \<Rightarrow> table \<Rightarrow> outcome" where
  "add_action_part_001 data t =
     (case canonicalizeEndpoint (property data ''endpoint'') of
        Inl err \<Rightarrow> Threw err
      | Inr None \<Rightarrow> Returned (respond_text 400 ''Invalid endpoint'')
      | Inr (Some e) \<Rightarrow>
          if \<not> isValidEndpoint e then Returned (respond_text 400 ''Invalid endpoint'')
          else
            (case parseInt (property data ''port'') of
               Inl err \<Rightarrow> Threw err
             | Inr None \<Rightarrow> Returned (respond_text 400 ''Invalid port'')
             | Inr (Some port) \<Rightarrow>
                 if port < 1 \<or> port > 65535
                 then Returned (respond_text 400 ''Invalid port'')
                 else Done (AList.update e port t)))"

definition delete_action_part_001 :: "json \<Rightarrow> table \<Rightarrow> outcome" where
  "delete_action_part_001 data t =
     (case canonicalizeEndpoint (property data ''endpoint'') of
        Inl err \<Rightarrow> Threw err
      | Inr None \<Rightarrow> Returned (respond_text 400 ''Invalid endpoint'')
      | Inr (Some e) \<Rightarrow> Done (AList.delete e t))"

definition rename_action_part_001 :: "json \<Rightarrow> table \<Rightarrow> outcome" where
  "rename_action_part_001 data t =
     (case canonicalizeEndpoint (property data ''oldEndpoint'') of
        Inl err \<Rightarrow> Threw err
      | Inr old \<Rightarrow>
          (case canonicalizeEndpoint (property data ''newEndpoint'') of
             Inl err \<Rightarrow> Threw err
           | Inr new \<Rightarrow>
               (case (old, new) of
                  (Some oldEndpoint, Some newEndpoint) \<Rightarrow>
                    if \<not> isValidEndpoint newEndpoint
                    then Returned (respond_text 400 ''Invalid endpoint'')
                    else move_endpoint oldEndpoint newEndpoint t
                | _ \<Rightarrow> Returned (respond_text 400 ''Invalid endpoint''))))"

definition update_part_001 :: "disk_write \<Rightarrow> json option \<Rightarrow> server \<Rightarrow> response \<times> server" where
  "update_part_001 writeFileSync parsed s =
     (case parsed of
        None \<Rightarrow> finish writeFileSync s (Threw SyntaxError)
      | Some data \<Rightarrow>
          finish writeFileSync s
            (if data = JNull then Threw TypeError
             else if property data ''action'' = Some (JStr ''add'')
               then add_action_part_001 data (mappings s)
             else if property data ''action'' = Some (JStr ''delete'')
               then delete_action_part_001 data (mappings s)
             else if property data ''action'' = Some (JStr ''rename'')
               then rename_action_part_001 data (mappings s)
             else Done (mappings s)))"

definition guiServer_part_001 ::
  "(int \<Rightarrow> bool) \<Rightarrow> disk_write \<Rightarrow> server \<Rightarrow> gui_request \<Rightarrow> response \<times> server" where
  "guiServer_part_001 checkPortStatus writeFileSync s req =
     (let path = gui_path req in
      if path = ''/'' then (page s, s)
      else if path = ''/get'' \<and> gui_method req = ''GET''
        then (\<lparr>status = 200, content_type = Some ''application/json'',
               body = StatusJson (getMappingsWithStatus checkPortStatus (mappings s))\<rparr>, s)
      else if path = ''/update'' \<and> gui_method req = ''POST''
        then update_part_001 writeFileSync (gui_body req) s
      else (not_found, s))"

section \<open>Parameters and inputs to run the model with\<close>

text \<open>
  The platform's URL parser cut down to the one referer of the referer scenario; every
  other string is taken as unparseable. It only instantiates the parameter \<open>pathname\<close>
  where a closed statement needs a parser.
\<close>

definition scenario_pathname :: "string \<Rightarrow> string option" where
  "scenario_pathname url = (if url = ''http://host/app/page'' then Some ''/app/page'' else None)"

text \<open>A network in which no backend answers the probe.\<close>

definition no_backend :: "int \<Rightarrow> bool" where
  "no_backend port = False"

text \<open>A server with the single route \<^verbatim>\<open>/app\<close> to 8080 and nothing written yet.\<close>

definition one_route :: server where
  "one_route = \<lparr>mappings = [(''/app'', 8080)], html = ''<html></html>'', disk = None, writes = 0\<rparr>"

text \<open>A server with two routes.\<close>

definition two_routes :: server where
  "two_routes =
     \<lparr>mappings = [(''/app'', 8080), (''/blog'', 3000)], html = ''<html></html>'',
      disk = None, writes = 0\<rparr>"

text \<open>
  A server whose table was read from a file that holds, beside \<^verbatim>\<open>/app\<close>, the key
  \<^verbatim>\<open>hasOwnProperty\<close>.
\<close>

definition shadowed :: server where
  "shadowed =
     \<lparr>mappings = [(''hasOwnProperty'', 1), (''/app'', 8080)], html = ''<html></html>'',
      disk = Some [(''hasOwnProperty'', 1), (''/app'', 8080)], writes = 0\<rparr>"

text \<open>\<^verbatim>\<open>POST /update\<close> with a body that parses to \<open>data\<close>.\<close>

definition post_update :: "json \<Rightarrow> gui_request" where
  "post_update data = \<lparr>gui_method = ''POST'', gui_path = ''/update'', gui_body = Some data\<rparr>"

section \<open>The longest matching endpoint is found first\<close>

lemma path_matches_take: "path_matches p e \<Longrightarrow> e = take (length e) p"
  by (auto simp: path_matches_def prefix_def)

lemma path_matches_same_length:
  "path_matches p e \<Longrightarrow> path_matches p e' \<Longrightarrow> length e = length e' \<Longrightarrow> e = e'"
  using path_matches_take by metis

lemma find_longest:
  assumes mem: "e \<in> set ks" and m: "path_matches p e"
    and longest: "\<forall>e' \<in> set ks. path_matches p e' \<longrightarrow> length e' \<le> length e"
  shows "find (path_matches p) (sort_key (\<lambda>e. - int (length e)) ks) = Some e"
proof -
  let ?f = "\<lambda>e::string. - int (length e)"
  let ?xs = "sort_key ?f ks"
  have set_xs: "set ?xs = set ks" by simp
  from mem set_xs obtain k where k: "k < length ?xs" "?xs ! k = e"
    by (metis in_set_conv_nth)
  have "find (path_matches p) ?xs \<noteq> None"
    using mem m set_xs by (auto simp: find_None_iff)
  then obtain x where x: "find (path_matches p) ?xs = Some x" by blast
  then obtain i where i: "i < length ?xs" "path_matches p (?xs ! i)" "x = ?xs ! i"
    "\<forall>j<i. \<not> path_matches p (?xs ! j)"
    unfolding find_Some_iff by blast
  have "i \<le> k" using i(4) k m by (metis not_le_imp_less)
  moreover have "sorted (map ?f ?xs)" by (rule sorted_sort_key)
  ultimately have "?f (?xs ! i) \<le> ?f (?xs ! k)"
    using k(1) i(1) by (metis (no_types, lifting) length_map nth_map sorted_iff_nth_mono)
  then have "length e \<le> length x" using k i by simp
  moreover have "x \<in> set ks" using i(1,3) set_xs by (metis nth_mem)
  then have "length x \<le> length e" using longest i by blast
  ultimately have "x = e" using path_matches_same_length i m by (metis le_antisym)
  with x show ?thesis by simp
qed

lemma findEndpoint_direct:
  assumes "e \<in> set (map fst t)" "path_matches p e"
    "\<forall>e' \<in> set (map fst t). path_matches p e' \<longrightarrow> length e' \<le> length e"
  shows "findEndpoint pn t p r =
    Some \<lparr>match_endpoint = e, match_port = map_of t e, matchedByPath = True\<rparr>"
  using find_longest [of e "map fst t" p] assms
  by (simp add: findEndpoint_def sortedEndpoints_def)

lemma matches_users:
  assumes "path_matches ''/app/api/users'' e"
  shows "e = [] \<or> e = ''/app'' \<or> e = ''/app/api'' \<or> e = ''/app/api/users''"
proof -
  let ?p = "''/app/api/users''"
  have e: "e = take (length e) ?p" using assms by (rule path_matches_take)
  have "length e = length (take (length e) ?p)" using e by simp
  then have "length e \<le> 14" by simp
  then consider "length e = 0" | "length e = 1" | "length e = 2" | "length e = 3" | "length e = 4"
    | "length e = 5" | "length e = 6" | "length e = 7" | "length e = 8" | "length e = 9"
    | "length e = 10" | "length e = 11" | "length e = 12" | "length e = 13" | "length e = 14"
    by atomize_elim presburger
  then show ?thesis
  proof cases
    case 1 then show ?thesis by simp
  qed (use e assms in \<open>(simp add: path_matches_def)+\<close>)
qed


lemma matches_home:
  assumes "path_matches ''/app/home'' e"
  shows "e = [] \<or> e = ''/app'' \<or> e = ''/app/home''"
proof -
  let ?p = "''/app/home''"
  have e: "e = take (length e) ?p" using assms by (rule path_matches_take)
  have "length e = length (take (length e) ?p)" using e by simp
  then have "length e \<le> 9" by simp
  then consider "length e = 0" | "length e = 1" | "length e = 2" | "length e = 3" | "length e = 4"
    | "length e = 5" | "length e = 6" | "length e = 7" | "length e = 8" | "length e = 9"
    by atomize_elim presburger
  then show ?thesis
  proof cases
    case 1 then show ?thesis by simp
  qed (use e assms in \<open>(simp add: path_matches_def)+\<close>)
qed

lemma map_of_keys: "map_of t k = Some v \<Longrightarrow> k \<in> set (map fst t)"
  by (metis map_of_eq_None_iff option.distinct(1) set_map)

lemma keys_map_of: "map_of t k = None \<Longrightarrow> k \<notin> set (map fst t)"
  by (simp add: map_of_eq_None_iff)

section \<open>Canonical endpoints and decimal ports\<close>

lemma class_char_code:
  "class_char c \<Longrightarrow> (of_char c :: nat) \<in> {97..122} \<union> {48..57} \<union> {45, 95}"
  by (auto simp: class_char_def Let_def)

lemma class_not_space: "class_char c \<Longrightarrow> \<not> StrWhiteSpaceChar c"
  using class_char_code [of c] by (auto simp: StrWhiteSpaceChar_def)

lemma class_lower: "class_char c \<Longrightarrow> lower_char c = c"
  using class_char_code [of c] by (auto simp: lower_char_def Let_def)

lemma slash_not_space: "\<not> StrWhiteSpaceChar (CHR ''/'')"
  by (simp add: StrWhiteSpaceChar_def)

lemma slash_lower: "lower_char (CHR ''/'') = CHR ''/''"
  by (simp add: lower_char_def)

lemma endpoint_regex_shape:
  "endpoint_regex e \<Longrightarrow> \<exists>rest. e = CHR ''/'' # rest \<and> rest \<noteq> [] \<and> list_all class_char rest"
  by (cases e) (auto simp: endpoint_regex_def)

lemma dropWhile_hd: "xs \<noteq> [] \<Longrightarrow> \<not> P (hd xs) \<Longrightarrow> dropWhile P xs = xs"
  by (cases xs) auto

lemma trim_valid: assumes "endpoint_regex e" shows "trim e = e"
proof -
  from assms obtain rest where e: "e = CHR ''/'' # rest" "rest \<noteq> []" "list_all class_char rest"
    using endpoint_regex_shape by blast
  have "class_char (last rest)" using e(2,3) by (simp add: list_all_iff)
  then have "\<not> StrWhiteSpaceChar (hd (rev e))" using e class_not_space by (simp add: hd_rev)
  then have "dropWhile StrWhiteSpaceChar (rev e) = rev e"
    using e(1) by (intro dropWhile_hd) simp_all
  moreover have "dropWhile StrWhiteSpaceChar e = e" using e slash_not_space by simp
  ultimately show ?thesis by (simp add: trim_def)
qed

lemma toLowerCase_valid: assumes "endpoint_regex e" shows "toLowerCase e = e"
proof -
  from assms obtain rest where e: "e = CHR ''/'' # rest" "list_all class_char rest"
    using endpoint_regex_shape by blast
  have "map lower_char rest = rest"
    using e(2) by (intro map_idI) (simp add: list_all_iff class_lower)
  then show ?thesis using e slash_lower by (simp add: toLowerCase_def)
qed

lemma with_slash_valid: "endpoint_regex e \<Longrightarrow> with_slash e = e"
  using endpoint_regex_shape [of e] by (auto simp: with_slash_def)

lemma valid_nonempty: "endpoint_regex e \<Longrightarrow> e \<noteq> []"
  by (auto simp: endpoint_regex_def)

lemma trim_toLowerCase_valid:
  "endpoint_regex e \<Longrightarrow> trim_toLowerCase (Some (JStr e)) = Inr (Some e)"
  by (simp add: trim_toLowerCase_def trim_valid toLowerCase_valid)

lemma canonicalizeEndpoint_valid:
  "endpoint_regex e \<Longrightarrow> canonicalizeEndpoint (Some (JStr e)) = Inr (Some e)"
  by (simp add: canonicalizeEndpoint_def trim_valid toLowerCase_valid with_slash_valid
      valid_nonempty Let_def)


lemma digit_val_digit_char: "d < 10 \<Longrightarrow> digit_val (digit_char d) = d"
proof -
  assume "d < 10"
  then consider "d = 0" | "d = 1" | "d = 2" | "d = 3" | "d = 4" | "d = 5" | "d = 6" | "d = 7"
    | "d = 8" | "d = 9"
    by atomize_elim presburger
  then show ?thesis
    by cases (simp_all add: digit_char_def digit_val_def)
qed

lemma digits_value_snoc: "digits_value R (Z @ [c]) = digits_value R Z * R + digit_val c"
  by (simp add: digits_value_def)

lemma digits_of_value: "digits_value 10 (digits_of n) = n"
proof (induction n rule: digits_of.induct)
  case (1 n)
  show ?case
  proof (cases "n < 10")
    case True
    then show ?thesis
      by (subst digits_of.simps) (simp add: digits_value_def digit_val_digit_char)
  next
    case False
    then have "digits_value 10 (digits_of n) = digits_value 10 (digits_of (n div 10)) * 10 + n mod 10"
      by (subst digits_of.simps) (simp add: digits_value_snoc digit_val_digit_char)
    then show ?thesis using 1 False by simp
  qed
qed

lemma digits_of_decimal: "list_all (\<lambda>c. digit_val c < 10) (digits_of n)"
proof (induction n rule: digits_of.induct)
  case (1 n)
  show ?case
  proof (cases "n < 10")
    case True
    then show ?thesis by (subst digits_of.simps) (simp add: digit_val_digit_char)
  next
    case False
    then show ?thesis using 1 by (subst digits_of.simps) (simp add: digit_val_digit_char)
  qed
qed

lemma digits_of_nonempty: "digits_of n \<noteq> []"
  by (subst digits_of.simps) simp

lemma decimal_code: "digit_val c < 10 \<Longrightarrow> (of_char c :: nat) \<in> {48..57}"
  by (auto simp: digit_val_def Let_def split: if_splits)

lemma decimal_not_space: "digit_val c < 10 \<Longrightarrow> \<not> StrWhiteSpaceChar c"
  using decimal_code [of c] by (auto simp: StrWhiteSpaceChar_def)

lemma parseInt_string_decimal:
  assumes ne: "ds \<noteq> []" and dec: "list_all (\<lambda>c. digit_val c < 10) ds"
  shows "parseInt_string ds = Some (int (digits_value 10 ds))"
proof -
  obtain c cs where ds: "ds = c # cs" using ne by (cases ds) auto
  have c: "digit_val c < 10" using dec ds by simp
  have dw: "dropWhile StrWhiteSpaceChar ds = ds" using ds decimal_not_space [OF c] by simp
  have "c \<noteq> CHR ''-''" "c \<noteq> CHR ''+''" using c by (auto simp: digit_val_def)
  then have sign: "\<not> prefix ''-'' ds" "\<not> prefix ''+'' ds" using ds by simp_all
  have hex: "\<not> prefix ''0x'' ds" "\<not> prefix ''0X'' ds"
    using dec ds by (auto simp: prefix_def digit_val_def Let_def)
  have tw: "takeWhile (\<lambda>c. digit_val c < 10) ds = ds"
    using dec by (simp add: list_all_iff takeWhile_eq_all_conv)
  show ?thesis by (simp add: parseInt_string_def Let_def dw sign hex tw ne)
qed

lemma parseInt_decimal_number: "parseInt (Some (JNum (digits_of n))) = Inr (Some (int n))"
  using parseInt_string_decimal [OF digits_of_nonempty digits_of_decimal, of n]
  by (simp add: parseInt_def digits_of_value)

lemma parseInt_decimal_string: "parseInt (Some (JStr (digits_of n))) = Inr (Some (int n))"
  using parseInt_string_decimal [OF digits_of_nonempty digits_of_decimal, of n]
  by (simp add: parseInt_def digits_of_value)

section \<open>The outcome of the update actions\<close>

lemma property_null: "property JNull name = None"
  by (simp add: property_def)

lemma canonical_string:
  assumes "canonicalizeEndpoint (Some (JStr raw)) = Inr (Some e)"
  shows "trim_toLowerCase (Some (JStr raw)) = Inr (Some (toLowerCase (trim raw)))"
    and "toLowerCase (trim raw) \<noteq> []"
    and "with_slash (toLowerCase (trim raw)) = e"
  using assms
  by (auto simp: canonicalizeEndpoint_def trim_toLowerCase_def Let_def split: if_splits)

lemma add_action_done:
  assumes "property data ''endpoint'' = Some (JStr raw)"
    and c: "canonicalizeEndpoint (Some (JStr raw)) = Inr (Some e)"
    and "isValidEndpoint e"
    and "parseInt (property data ''port'') = Inr (Some p)"
    and "1 \<le> p" "p \<le> 65535"
  shows "add_action data t = Done (AList.update e p t)"
    and "add_action_part_001 data t = Done (AList.update e p t)"
  using assms canonical_string [OF c]
  by (simp_all add: add_action_def add_action_part_001_def isValidEndpoint_def Let_def)

lemma add_action_port:
  assumes "property data ''endpoint'' = Some (JStr raw)"
    and c: "canonicalizeEndpoint (Some (JStr raw)) = Inr (Some e)"
    and "isValidEndpoint e"
    and "parseInt (property data ''port'') = Inr port"
    and "case port of None \<Rightarrow> True | Some p \<Rightarrow> p < 1 \<or> 65535 < p"
  shows "add_action data t = Returned (respond_text 400 ''Invalid port'')"
    and "add_action_part_001 data t = Returned (respond_text 400 ''Invalid port'')"
  using assms canonical_string [OF c]
  by (auto simp add: add_action_def add_action_part_001_def isValidEndpoint_def Let_def
      split: option.splits)

lemma rename_action_move:
  assumes "property data ''oldEndpoint'' = Some (JStr rawOld)"
    and co: "canonicalizeEndpoint (Some (JStr rawOld)) = Inr (Some oldEndpoint)"
    and "property data ''newEndpoint'' = Some (JStr rawNew)"
    and cn: "canonicalizeEndpoint (Some (JStr rawNew)) = Inr (Some newEndpoint)"
    and "isValidEndpoint newEndpoint"
  shows "rename_action data t = move_endpoint oldEndpoint newEndpoint t"
    and "rename_action_part_001 data t = move_endpoint oldEndpoint newEndpoint t"
  using assms canonical_string [OF co] canonical_string [OF cn]
  by (simp_all add: rename_action_def rename_action_part_001_def isValidEndpoint_def Let_def)

lemma move_endpoint_present:
  "map_of t ''hasOwnProperty'' = None \<Longrightarrow> map_of t oldEndpoint = Some p \<Longrightarrow>
   move_endpoint oldEndpoint newEndpoint t =
     Done (AList.delete oldEndpoint (AList.update newEndpoint p t))"
  by (simp add: move_endpoint_def)

lemma move_endpoint_absent:
  "map_of t ''hasOwnProperty'' = None \<Longrightarrow> map_of t oldEndpoint = None \<Longrightarrow>
   move_endpoint oldEndpoint newEndpoint t =
     Returned (respond_text 404 ''Old endpoint not found'')"
  by (simp add: move_endpoint_def)

lemma guiServer_post_update:
  assumes "gui_method req = ''POST''" "gui_path req = ''/update''"
  shows "guiServer checkPortStatus w s req = update w (gui_body req) s"
    and "guiServer_part_001 checkPortStatus w s req = update_part_001 w (gui_body req) s"
  using assms by (simp_all add: guiServer_def guiServer_part_001_def)

lemma update_add:
  assumes "property data ''action'' = Some (JStr ''add'')"
  shows "update w (Some data) s = finish w s (add_action data (mappings s))"
    and "update_part_001 w (Some data) s = finish w s (add_action_part_001 data (mappings s))"
  using assms property_null by (auto simp: update_def update_part_001_def)

lemma update_rename:
  assumes "property data ''action'' = Some (JStr ''rename'')"
  shows "update w (Some data) s = finish w s (rename_action data (mappings s))"
    and "update_part_001 w (Some data) s =
           finish w s (rename_action_part_001 data (mappings s))"
  using assms property_null by (auto simp: update_def update_part_001_def)

lemma update_other:
  assumes "data \<noteq> JNull"
    and "property data ''action'' \<noteq> Some (JStr ''add'')"
    and "property data ''action'' \<noteq> Some (JStr ''delete'')"
    and "property data ''action'' \<noteq> Some (JStr ''rename'')"
  shows "update w (Some data) s = finish w s (Done (mappings s))"
    and "update_part_001 w (Some data) s = finish w s (Done (mappings s))"
  using assms by (simp_all add: update_def update_part_001_def)

lemma finish_written:
  "finish Written s (Done t) =
     (respond_bare 200 ''OK'', s\<lparr>mappings := t, disk := Some t, writes := Suc (writes s)\<rparr>)"
  by (simp add: finish_def saveMappings_def)

lemma finish_failed:
  "finish (Failed left) s (Done t) =
     (respond_bare 400 ''Invalid JSON'', s\<lparr>mappings := t, disk := left\<rparr>)"
  by (simp add: finish_def saveMappings_def)

lemma finish_mappings: "mappings (snd (finish w s (Done t))) = t"
  by (cases w) (simp_all add: finish_written finish_failed)

lemma finish_returned: "finish w s (Returned r) = (r, s)"
  by (simp add: finish_def)

lemma delete_after_update: "AList.delete k (AList.update k v t) = AList.delete k t"
  by (induction t) (auto simp: AList.delete_eq)

section \<open>Running the model on concrete requests\<close>

lemma digits_of_small: "n < 10 \<Longrightarrow> digits_of n = [digit_char n]"
  by (simp add: digits_of.simps)

lemma digits_of_big:
  "\<not> n < 10 \<Longrightarrow> digits_of n = digits_of (n div 10) @ [digit_char (n mod 10)]"
  by (subst digits_of.simps) simp

lemmas run_string =
  trim_def StrWhiteSpaceChar_def toLowerCase_def lower_char_def char_of_def bit_0 with_slash_def
  endpoint_regex_def class_char_def isValidEndpoint_def Let_def

lemmas run_json =
  property_def trim_toLowerCase_def canonicalizeEndpoint_def parseInt_def parseInt_string_def
  digit_val_def digits_value_def digits_of_small digits_of_big digit_char_def

lemmas run_update =
  guiServer_def guiServer_part_001_def update_def update_part_001_def finish_def
  saveMappings_def add_action_def add_action_part_001_def delete_action_def
  delete_action_part_001_def rename_action_def rename_action_part_001_def move_endpoint_def
  respond_text_def respond_bare_def not_found_def page_def post_update_def one_route_def
  two_routes_def shadowed_def

section \<open>Claims about the proxy server\<close>

text \<open>
  C1 (as amended): in every routing table that maps \<^verbatim>\<open>/app\<close> to 8080 and \<^verbatim>\<open>/app/api\<close> to
  9090 and in which the request path itself is not an endpoint, \<^verbatim>\<open>/app/api/users\<close>
  resolves as a direct-path match to \<^verbatim>\<open>/app/api\<close>, port 9090, and is forwarded as
  \<^verbatim>\<open>/users\<close>, and \<^verbatim>\<open>/app/home\<close> resolves as a direct-path match to \<^verbatim>\<open>/app\<close>, port 8080,
  and is forwarded as \<^verbatim>\<open>/home\<close>.
\<close>

theorem longest_endpoint_wins:
  assumes app: "map_of (mappings s) ''/app'' = Some 8080"
    and api: "map_of (mappings s) ''/app/api'' = Some 9090"
  shows "(map_of (mappings s) ''/app/api/users'' = None \<longrightarrow>
            findEndpoint pathname (mappings s) ''/app/api/users'' referer =
              Some \<lparr>match_endpoint = ''/app/api'', match_port = Some 9090, matchedByPath = True\<rparr> \<and>
            (req_path req = ''/app/api/users'' \<longrightarrow>
               proxyServer pathname s req =
                 Forward \<lparr>target_port = Some 9090, target_path = ''/users'',
                          target_search = req_search req, target_method = req_method req\<rparr>)) \<and>
         (map_of (mappings s) ''/app/home'' = None \<longrightarrow>
            findEndpoint pathname (mappings s) ''/app/home'' referer =
              Some \<lparr>match_endpoint = ''/app'', match_port = Some 8080, matchedByPath = True\<rparr> \<and>
            (req_path req = ''/app/home'' \<longrightarrow>
               proxyServer pathname s req =
                 Forward \<lparr>target_port = Some 8080, target_path = ''/home'',
                          target_search = req_search req, target_method = req_method req\<rparr>))"
proof (intro conjI impI)
  assume none: "map_of (mappings s) ''/app/api/users'' = None"
  have "\<forall>e' \<in> set (map fst (mappings s)).
          path_matches ''/app/api/users'' e' \<longrightarrow> length e' \<le> length ''/app/api''"
    using matches_users keys_map_of [OF none] by fastforce
  then have f: "findEndpoint pathname (mappings s) ''/app/api/users'' r =
      Some \<lparr>match_endpoint = ''/app/api'', match_port = Some 9090, matchedByPath = True\<rparr>" for r
    using findEndpoint_direct [of "''/app/api''" "mappings s" "''/app/api/users''" pathname r]
      map_of_keys [OF api] api
    by (simp add: path_matches_def)
  show "findEndpoint pathname (mappings s) ''/app/api/users'' referer =
      Some \<lparr>match_endpoint = ''/app/api'', match_port = Some 9090, matchedByPath = True\<rparr>"
    by (rule f)
  assume "req_path req = ''/app/api/users''"
  then show "proxyServer pathname s req =
      Forward \<lparr>target_port = Some 9090, target_path = ''/users'',
               target_search = req_search req, target_method = req_method req\<rparr>"
    by (simp add: proxyServer_def f targetPath_def)
next
  assume none: "map_of (mappings s) ''/app/home'' = None"
  have "\<forall>e' \<in> set (map fst (mappings s)).
          path_matches ''/app/home'' e' \<longrightarrow> length e' \<le> length ''/app''"
    using matches_home keys_map_of [OF none] by fastforce
  then have f: "findEndpoint pathname (mappings s) ''/app/home'' r =
      Some \<lparr>match_endpoint = ''/app'', match_port = Some 8080, matchedByPath = True\<rparr>" for r
    using findEndpoint_direct [of "''/app''" "mappings s" "''/app/home''" pathname r]
      map_of_keys [OF app] app
    by (simp add: path_matches_def)
  show "findEndpoint pathname (mappings s) ''/app/home'' referer =
      Some \<lparr>match_endpoint = ''/app'', match_port = Some 8080, matchedByPath = True\<rparr>"
    by (rule f)
  assume "req_path req = ''/app/home''"
  then show "proxyServer pathname s req =
      Forward \<lparr>target_port = Some 8080, target_path = ''/home'',
               target_search = req_search req, target_method = req_method req\<rparr>"
    by (simp add: proxyServer_def f targetPath_def)
qed

theorem longest_endpoint_wins_witness:
  "map_of [(''/app'', 8080), (''/app/api'', 9090)] ''/app'' = Some (8080::int) \<and>
   map_of [(''/app'', 8080), (''/app/api'', 9090)] ''/app/api'' = Some (9090::int) \<and>
   map_of [(''/app'', 8080), (''/app/api'', 9090)] ''/app/api/users'' = (None :: int option) \<and>
   map_of [(''/app'', 8080), (''/app/api'', 9090)] ''/app/home'' = (None :: int option) \<and>
   proxyServer scenario_pathname
     \<lparr>mappings = [(''/app'', 8080), (''/app/api'', 9090)], html = [], disk = None, writes = 0\<rparr>
     \<lparr>req_method = ''GET'', req_path = ''/app/api/users'', req_search = ''?q=1'',
      hdr_referer = None, hdr_referrer = None\<rparr> =
     Forward \<lparr>target_port = Some 9090, target_path = ''/users'', target_search = ''?q=1'',
              target_method = ''GET''\<rparr> \<and>
   proxyServer scenario_pathname
     \<lparr>mappings = [(''/app'', 8080), (''/app/api'', 9090)], html = [], disk = None, writes = 0\<rparr>
     \<lparr>req_method = ''GET'', req_path = ''/app/home'', req_search = [],
      hdr_referer = None, hdr_referrer = None\<rparr> =
     Forward \<lparr>target_port = Some 8080, target_path = ''/home'', target_search = [],
              target_method = ''GET''\<rparr>"
  using
    longest_endpoint_wins [of
      "\<lparr>mappings = [(''/app'', 8080), (''/app/api'', 9090)], html = [], disk = None, writes = 0\<rparr>"
      scenario_pathname "[]"
      "\<lparr>req_method = ''GET'', req_path = ''/app/api/users'', req_search = ''?q=1'',
        hdr_referer = None, hdr_referrer = None\<rparr>"]
    longest_endpoint_wins [of
      "\<lparr>mappings = [(''/app'', 8080), (''/app/api'', 9090)], html = [], disk = None, writes = 0\<rparr>"
      scenario_pathname "[]"
      "\<lparr>req_method = ''GET'', req_path = ''/app/home'', req_search = [],
        hdr_referer = None, hdr_referrer = None\<rparr>"]
  by simp

text \<open>
  Without the proviso the statement fails: in a table that also holds the request path
  as an endpoint, that longer endpoint is tried first and wins.
\<close>

theorem longest_endpoint_counterexample:
  "map_of [(''/app'', 8080), (''/app/api'', 9090), (''/app/api/users'', 7070)] ''/app'' = Some 8080 \<and>
   map_of [(''/app'', 8080), (''/app/api'', 9090), (''/app/api/users'', 7070)] ''/app/api'' = Some 9090 \<and>
   findEndpoint scenario_pathname
     [(''/app'', 8080), (''/app/api'', 9090), (''/app/api/users'', 7070)] ''/app/api/users'' [] =
     Some \<lparr>match_endpoint = ''/app/api/users'', match_port = Some 7070, matchedByPath = True\<rparr> \<and>
   proxyServer scenario_pathname
     \<lparr>mappings = [(''/app'', 8080), (''/app/api'', 9090), (''/app/api/users'', 7070)],
      html = [], disk = None, writes = 0\<rparr>
     \<lparr>req_method = ''GET'', req_path = ''/app/api/users'', req_search = [],
      hdr_referer = None, hdr_referrer = None\<rparr> =
     Forward \<lparr>target_port = Some 7070, target_path = ''/'', target_search = [],
              target_method = ''GET''\<rparr>"
  by (simp add: findEndpoint_def proxyServer_def sortedEndpoints_def path_matches_def
      targetPath_def referer_of_def)

text \<open>
  C2: a proxy request whose path is \<^verbatim>\<open>/gui\<close> or starts with \<^verbatim>\<open>/gui/\<close> is answered with
  404 Not Found, whatever the routing table, the headers and the URL parser are: the
  resolver's result plays no part and nothing is forwarded.
\<close>

theorem proxy_blocks_gui:
  "req_path req = ''/gui'' \<or> prefix ''/gui/'' (req_path req) \<Longrightarrow>
   proxyServer pathname s req =
     Respond \<lparr>status = 404, content_type = Some ''text/plain'', body = Text ''Not Found''\<rparr>"
  by (simp add: proxyServer_def not_found_def Let_def)

theorem proxy_blocks_gui_witness:
  "prefix ''/gui/'' ''/gui/get'' \<and>
   proxyServer scenario_pathname
     \<lparr>mappings = [(''/gui'', 8080)], html = [], disk = None, writes = 0\<rparr>
     \<lparr>req_method = ''GET'', req_path = ''/gui/get'', req_search = [],
      hdr_referer = Some ''http://host/app/page'', hdr_referrer = None\<rparr> =
     Respond \<lparr>status = 404, content_type = Some ''text/plain'', body = Text ''Not Found''\<rparr>"
  using proxy_blocks_gui [of "\<lparr>req_method = ''GET'', req_path = ''/gui/get'', req_search = [],
      hdr_referer = Some ''http://host/app/page'', hdr_referrer = None\<rparr>" scenario_pathname
      "\<lparr>mappings = [(''/gui'', 8080)], html = [], disk = None, writes = 0\<rparr>"]
  by simp

text \<open>
  C7: with only \<^verbatim>\<open>/app\<close> mapped to 8080, a request for \<^verbatim>\<open>/assets/style.css\<close> whose referer
  is \<^verbatim>\<open>http://host/app/page\<close> (of which the URL parser gives the path \<^verbatim>\<open>/app/page\<close>)
  resolves to port 8080 as a referer-derived match and is forwarded with its path
  unchanged.
\<close>

theorem referer_fallback:
  assumes "pathname ''http://host/app/page'' = Some ''/app/page''"
    and "mappings s = [(''/app'', 8080)]"
    and "req_path req = ''/assets/style.css''"
    and "hdr_referer req = Some ''http://host/app/page''"
  shows "findEndpoint pathname (mappings s) ''/assets/style.css'' ''http://host/app/page'' =
           Some \<lparr>match_endpoint = ''/app'', match_port = Some 8080, matchedByPath = False\<rparr> \<and>
         proxyServer pathname s req =
           Forward \<lparr>target_port = Some 8080, target_path = ''/assets/style.css'',
                    target_search = req_search req, target_method = req_method req\<rparr>"
  using assms
  by (simp add: findEndpoint_def proxyServer_def sortedEndpoints_def path_matches_def
      targetPath_def referer_of_def)

theorem referer_fallback_witness:
  "scenario_pathname ''http://host/app/page'' = Some ''/app/page'' \<and>
   proxyServer scenario_pathname
     \<lparr>mappings = [(''/app'', 8080)], html = [], disk = None, writes = 0\<rparr>
     \<lparr>req_method = ''GET'', req_path = ''/assets/style.css'', req_search = [],
      hdr_referer = Some ''http://host/app/page'', hdr_referrer = None\<rparr> =
     Forward \<lparr>target_port = Some 8080, target_path = ''/assets/style.css'', target_search = [],
              target_method = ''GET''\<rparr>"
  using referer_fallback [of scenario_pathname
      "\<lparr>mappings = [(''/app'', 8080)], html = [], disk = None, writes = 0\<rparr>"
      "\<lparr>req_method = ''GET'', req_path = ''/assets/style.css'', req_search = [],
        hdr_referer = Some ''http://host/app/page'', hdr_referrer = None\<rparr>"]
  by (simp add: scenario_pathname_def)

section \<open>Claims about the admin server\<close>

text \<open>
  C3 (as amended): an add request whose endpoint field is a string that canonicalises to
  a valid endpoint, and whose port \<^verbatim>\<open>parseInt\<close> reads as \<^verbatim>\<open>NaN\<close> or as a number outside 1 to
  65535, is answered with 400 \<^verbatim>\<open>Invalid port\<close> by both admin servers, and the table, the
  file and the count of writes are unchanged.
\<close>

theorem add_invalid_port_rejected:
  assumes "parseInt (property data ''port'') = Inr port"
    and "case port of None \<Rightarrow> True | Some p \<Rightarrow> p < 1 \<or> 65535 < p"
    and "property data ''action'' = Some (JStr ''add'')"
    and "property data ''endpoint'' = Some (JStr raw)"
    and "canonicalizeEndpoint (Some (JStr raw)) = Inr (Some e)"
    and "isValidEndpoint e"
    and "gui_method req = ''POST''" and "gui_path req = ''/update''"
    and "gui_body req = Some data"
  shows "guiServer checkPortStatus writeFileSync s req =
           (respond_text 400 ''Invalid port'', s) \<and>
         guiServer_part_001 checkPortStatus writeFileSync s req =
           (respond_text 400 ''Invalid port'', s)"
proof -
  note bad = add_action_port [OF assms(4,5,6,1,2)]
  show ?thesis
    by (simp add: guiServer_post_update [OF assms(7,8)] assms(9) update_add [OF assms(3)]
        bad finish_returned)
qed

theorem add_invalid_port_rejected_witness:
  "isValidEndpoint ''/blog'' \<and>
   canonicalizeEndpoint (Some (JStr ''Blog'')) = Inr (Some ''/blog'') \<and>
   parseInt (Some (JNum ''70000'')) = Inr (Some 70000) \<and>
   parseInt (Some (JStr ''abc'')) = Inr None \<and>
   guiServer no_backend Written one_route
     (post_update (JObj [(''action'', JStr ''add''), (''endpoint'', JStr ''Blog''),
                         (''port'', JNum ''70000'')])) =
     (\<lparr>status = 400, content_type = Some ''text/plain'', body = Text ''Invalid port''\<rparr>,
      one_route) \<and>
   guiServer_part_001 no_backend Written one_route
     (post_update (JObj [(''action'', JStr ''add''), (''endpoint'', JStr ''Blog''),
                         (''port'', JNum ''70000'')])) =
     (\<lparr>status = 400, content_type = Some ''text/plain'', body = Text ''Invalid port''\<rparr>,
      one_route) \<and>
   guiServer no_backend Written one_route
     (post_update (JObj [(''action'', JStr ''add''), (''endpoint'', JStr ''Blog''),
                         (''port'', JStr ''abc'')])) =
     (\<lparr>status = 400, content_type = Some ''text/plain'', body = Text ''Invalid port''\<rparr>,
      one_route) \<and>
   guiServer_part_001 no_backend Written one_route
     (post_update (JObj [(''action'', JStr ''add''), (''endpoint'', JStr ''Blog''),
                         (''port'', JStr ''abc'')])) =
     (\<lparr>status = 400, content_type = Some ''text/plain'', body = Text ''Invalid port''\<rparr>,
      one_route)"
proof -
  let ?d1 = "JObj [(''action'', JStr ''add''), (''endpoint'', JStr ''Blog''),
                       (''port'', JNum ''70000'')]"
  let ?d2 = "JObj [(''action'', JStr ''add''), (''endpoint'', JStr ''Blog''),
                     (''port'', JStr ''abc'')]"
  have valid: "isValidEndpoint ''/blog''" by (simp add: run_string)
  have canon: "canonicalizeEndpoint (Some (JStr ''Blog'')) = Inr (Some ''/blog'')"
    by (simp add: run_string run_json)
  have p1: "parseInt (Some (JNum ''70000'')) = Inr (Some 70000)"
    by (simp add: run_string run_json)
  have p2: "parseInt (Some (JStr ''abc'')) = Inr None"
    by (simp add: run_string run_json)
  show ?thesis
    using
      add_invalid_port_rejected [of ?d1 "Some 70000" "''Blog''" "''/blog''"
        "post_update ?d1" no_backend Written one_route]
      add_invalid_port_rejected [of ?d2 None "''Blog''" "''/blog''"
        "post_update ?d2" no_backend Written one_route]
      valid canon p1 p2
    by (simp add: property_def post_update_def respond_text_def)
qed

text \<open>
  The proviso on the endpoint is needed: the endpoint is validated before the port, so an
  add request with an invalid endpoint and the port 70000 is answered
  \<^verbatim>\<open>Invalid endpoint\<close>.
\<close>

theorem add_invalid_port_counterexample:
  "parseInt (Some (JNum ''70000'')) = Inr (Some 70000) \<and>
   guiServer no_backend Written one_route
     (post_update (JObj [(''action'', JStr ''add''), (''endpoint'', JStr ''My App!''),
                         (''port'', JNum ''70000'')])) =
     (\<lparr>status = 400, content_type = Some ''text/plain'', body = Text ''Invalid endpoint''\<rparr>,
      one_route) \<and>
   guiServer_part_001 no_backend Written one_route
     (post_update (JObj [(''action'', JStr ''add''), (''endpoint'', JStr ''My App!''),
                         (''port'', JNum ''70000'')])) =
     (\<lparr>status = 400, content_type = Some ''text/plain'', body = Text ''Invalid endpoint''\<rparr>,
      one_route)"
  by (simp add: run_update run_json run_string)

text \<open>
  \<^verbatim>\<open>parseInt\<close> stops at the first character that is no digit: of the port \<^verbatim>\<open>80abc\<close> it
  reads 80, of the number \<^verbatim>\<open>1e+21\<close> it reads 1, and the \<^verbatim>\<open>isNaN\<close> test lets both pass.
\<close>

lemma parseInt_reads_the_leading_digits:
  "parseInt (Some (JStr ''80abc'')) = Inr (Some 80) \<and>
   parseInt (Some (JNum ''1e+21'')) = Inr (Some 1) \<and>
   guiServer no_backend Written one_route
     (post_update (JObj [(''action'', JStr ''add''), (''endpoint'', JStr ''/blog''),
                         (''port'', JStr ''80abc'')])) =
     (\<lparr>status = 200, content_type = None, body = Text ''OK''\<rparr>,
      \<lparr>mappings = [(''/app'', 8080), (''/blog'', 80)], html = ''<html></html>'',
       disk = Some [(''/app'', 8080), (''/blog'', 80)], writes = 1\<rparr>)"
  by (simp add: run_update run_json run_string)

text \<open>
  C4 (as amended): in a table that owns no key named \<^verbatim>\<open>hasOwnProperty\<close>, a rename
  request whose fields are strings, whose \<^verbatim>\<open>oldEndpoint\<close> canonicalises to an endpoint
  absent from the table and whose \<^verbatim>\<open>newEndpoint\<close> canonicalises to a valid endpoint, is
  answered with 404 \<^verbatim>\<open>Old endpoint not found\<close> by both admin servers, and the table, the
  file and the count of writes are unchanged.
\<close>

theorem rename_absent_not_found:
  assumes "map_of (mappings s) oldEndpoint = None"
    and "map_of (mappings s) ''hasOwnProperty'' = None"
    and "isValidEndpoint newEndpoint"
    and "property data ''action'' = Some (JStr ''rename'')"
    and "property data ''oldEndpoint'' = Some (JStr rawOld)"
    and "canonicalizeEndpoint (Some (JStr rawOld)) = Inr (Some oldEndpoint)"
    and "property data ''newEndpoint'' = Some (JStr rawNew)"
    and "canonicalizeEndpoint (Some (JStr rawNew)) = Inr (Some newEndpoint)"
    and "gui_method req = ''POST''" and "gui_path req = ''/update''"
    and "gui_body req = Some data"
  shows "guiServer checkPortStatus writeFileSync s req =
           (respond_text 404 ''Old endpoint not found'', s) \<and>
         guiServer_part_001 checkPortStatus writeFileSync s req =
           (respond_text 404 ''Old endpoint not found'', s)"
proof -
  note move = rename_action_move [OF assms(5,6,7,8,3)]
  show ?thesis
    by (simp add: guiServer_post_update [OF assms(9,10)] assms(11) update_rename [OF assms(4)]
        move move_endpoint_absent [OF assms(2,1)] finish_returned)
qed

theorem rename_absent_not_found_witness:
  "map_of (mappings one_route) ''/nope'' = None \<and>
   map_of (mappings one_route) ''hasOwnProperty'' = None \<and>
   isValidEndpoint ''/blog'' \<and>
   canonicalizeEndpoint (Some (JStr ''nope'')) = Inr (Some ''/nope'') \<and>
   canonicalizeEndpoint (Some (JStr ''/blog'')) = Inr (Some ''/blog'') \<and>
   guiServer no_backend Written one_route
     (post_update (JObj [(''action'', JStr ''rename''), (''oldEndpoint'', JStr ''nope''),
                         (''newEndpoint'', JStr ''/blog'')])) =
     (\<lparr>status = 404, content_type = Some ''text/plain'', body = Text ''Old endpoint not found''\<rparr>,
      one_route) \<and>
   guiServer_part_001 no_backend Written one_route
     (post_update (JObj [(''action'', JStr ''rename''), (''oldEndpoint'', JStr ''nope''),
                         (''newEndpoint'', JStr ''/blog'')])) =
     (\<lparr>status = 404, content_type = Some ''text/plain'', body = Text ''Old endpoint not found''\<rparr>,
      one_route)"
proof -
  let ?data = "JObj [(''action'', JStr ''rename''), (''oldEndpoint'', JStr ''nope''),
                     (''newEndpoint'', JStr ''/blog'')]"
  have valid: "isValidEndpoint ''/blog''" by (simp add: run_string)
  have absent: "map_of (mappings one_route) ''/nope'' = None"
    "map_of (mappings one_route) ''hasOwnProperty'' = None"
    by (simp_all add: one_route_def)
  have c1: "canonicalizeEndpoint (Some (JStr ''nope'')) = Inr (Some ''/nope'')"
    by (simp add: run_string run_json)
  have c2: "canonicalizeEndpoint (Some (JStr ''/blog'')) = Inr (Some ''/blog'')"
    by (simp add: run_string run_json)
  show ?thesis
    using rename_absent_not_found [of one_route "''/nope''" "''/blog''" ?data "''nope''"
        "''/blog''" "post_update ?data" no_backend Written] valid absent c1 c2
    by (simp add: property_def post_update_def respond_text_def)
qed

text \<open>
  With an invalid new endpoint the answer is 400 instead: the new endpoint is validated
  before the old one is looked up.
\<close>

theorem rename_absent_counterexample:
  "map_of (mappings one_route) ''/nope'' = None \<and>
   guiServer no_backend Written one_route
     (post_update (JObj [(''action'', JStr ''rename''), (''oldEndpoint'', JStr ''/nope''),
                         (''newEndpoint'', JStr ''My App!'')])) =
     (\<lparr>status = 400, content_type = Some ''text/plain'', body = Text ''Invalid new endpoint''\<rparr>,
      one_route) \<and>
   guiServer_part_001 no_backend Written one_route
     (post_update (JObj [(''action'', JStr ''rename''), (''oldEndpoint'', JStr ''/nope''),
                         (''newEndpoint'', JStr ''My App!'')])) =
     (\<lparr>status = 400, content_type = Some ''text/plain'', body = Text ''Invalid endpoint''\<rparr>,
      one_route)"
  by (simp add: run_update run_json run_string)

text \<open>
  C5: for every valid endpoint \<open>e\<close> and port \<open>p\<close> from 1 to 65535, after an add request
  with endpoint \<open>e\<close> and port \<open>p\<close> (sent as a number or as its decimal string) a lookup of
  \<open>e\<close> in the table returns \<open>p\<close>, in both admin servers and whether or not the write of
  the file succeeds; the table is the old one with \<open>e\<close> set to \<open>p\<close>, and the answer is
  200 \<^verbatim>\<open>OK\<close> when the write succeeds.
\<close>

theorem add_then_get:
  assumes "isValidEndpoint e" and "1 \<le> p" and "p \<le> 65535"
    and "property data ''action'' = Some (JStr ''add'')"
    and "property data ''endpoint'' = Some (JStr e)"
    and "property data ''port'' = Some (JNum (digits_of (nat p))) \<or>
         property data ''port'' = Some (JStr (digits_of (nat p)))"
    and "gui_method req = ''POST''" and "gui_path req = ''/update''"
    and "gui_body req = Some data"
  shows "map_of (mappings (snd (guiServer checkPortStatus writeFileSync s req))) e = Some p \<and>
         mappings (snd (guiServer checkPortStatus writeFileSync s req)) =
           AList.update e p (mappings s) \<and>
         fst (guiServer checkPortStatus Written s req) = respond_bare 200 ''OK'' \<and>
         map_of (mappings (snd (guiServer_part_001 checkPortStatus writeFileSync s req))) e =
           Some p \<and>
         mappings (snd (guiServer_part_001 checkPortStatus writeFileSync s req)) =
           AList.update e p (mappings s) \<and>
         fst (guiServer_part_001 checkPortStatus Written s req) = respond_bare 200 ''OK''"
proof -
  have c: "canonicalizeEndpoint (Some (JStr e)) = Inr (Some e)"
    using assms(1) by (simp add: canonicalizeEndpoint_valid isValidEndpoint_def)
  have "parseInt (property data ''port'') = Inr (Some (int (nat p)))"
    using assms(6) by (auto simp: parseInt_decimal_number parseInt_decimal_string)
  then have port: "parseInt (property data ''port'') = Inr (Some p)"
    using assms(2) by simp
  note added = add_action_done [OF assms(5) c assms(1) port assms(2,3)]
  show ?thesis
    by (simp add: guiServer_post_update [OF assms(7,8)] assms(9) update_add [OF assms(4)]
        added finish_mappings finish_written AList.update_conv')
qed

theorem add_then_get_witness:
  "isValidEndpoint ''/blog'' \<and>
   digits_of (nat 3000) = ''3000'' \<and>
   map_of (mappings (snd (guiServer no_backend (Failed None) one_route
     (post_update (JObj [(''action'', JStr ''add''), (''endpoint'', JStr ''/blog''),
                         (''port'', JNum ''3000'')]))))) ''/blog'' = Some 3000 \<and>
   guiServer no_backend Written one_route
     (post_update (JObj [(''action'', JStr ''add''), (''endpoint'', JStr ''/blog''),
                         (''port'', JNum ''3000'')])) =
     (\<lparr>status = 200, content_type = None, body = Text ''OK''\<rparr>,
      \<lparr>mappings = [(''/app'', 8080), (''/blog'', 3000)], html = ''<html></html>'',
       disk = Some [(''/app'', 8080), (''/blog'', 3000)], writes = 1\<rparr>) \<and>
   map_of (mappings (snd (guiServer_part_001 no_backend (Failed None) one_route
     (post_update (JObj [(''action'', JStr ''add''), (''endpoint'', JStr ''/blog''),
                         (''port'', JNum ''3000'')]))))) ''/blog'' = Some 3000"
proof -
  let ?data = "JObj [(''action'', JStr ''add''), (''endpoint'', JStr ''/blog''),
                     (''port'', JNum ''3000'')]"
  have valid: "isValidEndpoint ''/blog''" by (simp add: run_string)
  have digits: "digits_of (nat 3000) = ''3000''"
    by (simp add: digits_of_small digits_of_big digit_char_def)
  have run: "guiServer no_backend Written one_route (post_update ?data) =
     (\<lparr>status = 200, content_type = None, body = Text ''OK''\<rparr>,
      \<lparr>mappings = [(''/app'', 8080), (''/blog'', 3000)], html = ''<html></html>'',
       disk = Some [(''/app'', 8080), (''/blog'', 3000)], writes = 1\<rparr>)"
    by (simp add: run_update run_json run_string)
  have "map_of (mappings (snd (guiServer no_backend (Failed None) one_route
            (post_update ?data)))) ''/blog'' = Some 3000 \<and>
        map_of (mappings (snd (guiServer_part_001 no_backend (Failed None) one_route
            (post_update ?data)))) ''/blog'' = Some 3000"
    using add_then_get [of "''/blog''" 3000 ?data "post_update ?data" no_backend "Failed None"
        one_route] valid digits
    by (simp add: property_def post_update_def AList.update_conv')
  then show ?thesis using valid digits run by simp
qed

text \<open>
  C6: the table read from a file that holds the key \<^verbatim>\<open>hasOwnProperty\<close> beside \<^verbatim>\<open>/app\<close> has
  the valid endpoint \<^verbatim>\<open>/app\<close> present, yet the rename of \<^verbatim>\<open>/app\<close> to the valid endpoint
  \<^verbatim>\<open>/blog\<close> moves nothing in either admin server: \<^verbatim>\<open>mappings.hasOwnProperty\<close> is then the
  stored number, the call throws, and the answer is 400 \<^verbatim>\<open>Invalid JSON\<close>. Afterwards a
  lookup of \<^verbatim>\<open>/app\<close> still returns 8080 and a lookup of \<^verbatim>\<open>/blog\<close> returns nothing, where
  the property asks for nothing and 8080.
\<close>

theorem rename_shadowed_moves_nothing:
  "isValidEndpoint ''/app'' \<and> isValidEndpoint ''/blog'' \<and>
   map_of (mappings shadowed) ''/app'' = Some 8080 \<and>
   guiServer no_backend Written shadowed
     (post_update (JObj [(''action'', JStr ''rename''), (''oldEndpoint'', JStr ''/app''),
                         (''newEndpoint'', JStr ''/blog'')])) =
     (\<lparr>status = 400, content_type = None, body = Text ''Invalid JSON''\<rparr>, shadowed) \<and>
   guiServer_part_001 no_backend Written shadowed
     (post_update (JObj [(''action'', JStr ''rename''), (''oldEndpoint'', JStr ''/app''),
                         (''newEndpoint'', JStr ''/blog'')])) =
     (\<lparr>status = 400, content_type = None, body = Text ''Invalid JSON''\<rparr>, shadowed) \<and>
   map_of (mappings shadowed) ''/blog'' = None"
  by (simp add: run_update run_json run_string)

text \<open>
  In every table that owns no key named \<^verbatim>\<open>hasOwnProperty\<close> the rename does what the
  property says, in both admin servers and whether or not the write of the file
  succeeds: for valid endpoints \<open>a\<close> and \<open>b\<close>, different, with \<open>a\<close> in the table, a lookup
  of \<open>a\<close> then returns nothing and a lookup of \<open>b\<close> returns the port \<open>a\<close> had.
\<close>

lemma rename_moves_port:
  assumes "isValidEndpoint a" and "isValidEndpoint b" and "a \<noteq> b"
    and "map_of (mappings s) a = Some p"
    and "map_of (mappings s) ''hasOwnProperty'' = None"
    and "property data ''action'' = Some (JStr ''rename'')"
    and "property data ''oldEndpoint'' = Some (JStr a)"
    and "property data ''newEndpoint'' = Some (JStr b)"
    and "gui_method req = ''POST''" and "gui_path req = ''/update''"
    and "gui_body req = Some data"
  shows "mappings (snd (guiServer checkPortStatus writeFileSync s req)) =
           AList.delete a (AList.update b p (mappings s)) \<and>
         map_of (mappings (snd (guiServer checkPortStatus writeFileSync s req))) a = None \<and>
         map_of (mappings (snd (guiServer checkPortStatus writeFileSync s req))) b = Some p \<and>
         mappings (snd (guiServer_part_001 checkPortStatus writeFileSync s req)) =
           AList.delete a (AList.update b p (mappings s)) \<and>
         map_of (mappings (snd (guiServer_part_001 checkPortStatus writeFileSync s req))) a =
           None \<and>
         map_of (mappings (snd (guiServer_part_001 checkPortStatus writeFileSync s req))) b =
           Some p"
proof -
  have ca: "canonicalizeEndpoint (Some (JStr a)) = Inr (Some a)"
    using assms(1) by (simp add: canonicalizeEndpoint_valid isValidEndpoint_def)
  have cb: "canonicalizeEndpoint (Some (JStr b)) = Inr (Some b)"
    using assms(2) by (simp add: canonicalizeEndpoint_valid isValidEndpoint_def)
  note move = rename_action_move [OF assms(7) ca assms(8) cb assms(2)]
  show ?thesis
    using assms(3)
    by (simp add: guiServer_post_update [OF assms(9,10)] assms(11) update_rename [OF assms(6)]
        move move_endpoint_present [OF assms(5,4)] finish_mappings
        AList.update_conv' AList.delete_conv')
qed

text \<open>
  C8 (as amended): the admin server of index.js serves the administrative page (200,
  \<^verbatim>\<open>text/html\<close>) at \<^verbatim>\<open>/\<close> and at \<^verbatim>\<open>/gui\<close>, for every method; the admin server of the
  refactored source serves it at \<^verbatim>\<open>/\<close> and answers \<^verbatim>\<open>/gui\<close> with 404 Not Found.
\<close>

theorem admin_page_paths:
  "(gui_path req = ''/'' \<or> gui_path req = ''/gui'' \<longrightarrow>
      guiServer checkPortStatus writeFileSync s req =
        (\<lparr>status = 200, content_type = Some ''text/html'', body = Text (html s)\<rparr>, s)) \<and>
   (gui_path req = ''/'' \<longrightarrow>
      guiServer_part_001 checkPortStatus writeFileSync s req =
        (\<lparr>status = 200, content_type = Some ''text/html'', body = Text (html s)\<rparr>, s)) \<and>
   (gui_path req = ''/gui'' \<longrightarrow>
      guiServer_part_001 checkPortStatus writeFileSync s req =
        (\<lparr>status = 404, content_type = Some ''text/plain'', body = Text ''Not Found''\<rparr>, s))"
  by (auto simp: guiServer_def guiServer_part_001_def page_def not_found_def)

theorem admin_page_paths_witness:
  "guiServer no_backend Written one_route
     \<lparr>gui_method = ''GET'', gui_path = ''/'', gui_body = None\<rparr> =
     (\<lparr>status = 200, content_type = Some ''text/html'', body = Text ''<html></html>''\<rparr>, one_route) \<and>
   guiServer no_backend Written one_route
     \<lparr>gui_method = ''GET'', gui_path = ''/gui'', gui_body = None\<rparr> =
     (\<lparr>status = 200, content_type = Some ''text/html'', body = Text ''<html></html>''\<rparr>, one_route) \<and>
   guiServer_part_001 no_backend Written one_route
     \<lparr>gui_method = ''GET'', gui_path = ''/'', gui_body = None\<rparr> =
     (\<lparr>status = 200, content_type = Some ''text/html'', body = Text ''<html></html>''\<rparr>, one_route)"
  using
    admin_page_paths [of "\<lparr>gui_method = ''GET'', gui_path = ''/'', gui_body = None\<rparr>"
      no_backend Written one_route]
    admin_page_paths [of "\<lparr>gui_method = ''GET'', gui_path = ''/gui'', gui_body = None\<rparr>"
      no_backend Written one_route]
  by (simp add: one_route_def)

text \<open>
  The refactored admin server has none of the \<^verbatim>\<open>/gui\<close> aliases: a \<^verbatim>\<open>GET /gui\<close> is not
  found there.
\<close>

theorem admin_page_counterexample:
  "guiServer_part_001 no_backend Written one_route
     \<lparr>gui_method = ''GET'', gui_path = ''/gui'', gui_body = None\<rparr> =
     (\<lparr>status = 404, content_type = Some ''text/plain'', body = Text ''Not Found''\<rparr>, one_route)"
  by (simp add: guiServer_part_001_def not_found_def)

text \<open>
  C9 (as amended): in a table that owns no key named \<^verbatim>\<open>hasOwnProperty\<close>, a rename request
  whose \<^verbatim>\<open>oldEndpoint\<close> and \<^verbatim>\<open>newEndpoint\<close> are strings that both canonicalise to the same
  valid endpoint \<open>a\<close> of the table removes \<open>a\<close> from the table in memory and leaves every
  other entry as it was, in both admin servers: the value is copied onto its own key and
  the key is then deleted. The answer is 200 \<^verbatim>\<open>OK\<close> when the write of the file succeeds
  and 400 \<^verbatim>\<open>Invalid JSON\<close> when it fails.
\<close>

theorem rename_to_itself_deletes:
  assumes "isValidEndpoint a" and "map_of (mappings s) a = Some p"
    and "map_of (mappings s) ''hasOwnProperty'' = None"
    and "property data ''action'' = Some (JStr ''rename'')"
    and "property data ''oldEndpoint'' = Some (JStr rawOld)"
    and "canonicalizeEndpoint (Some (JStr rawOld)) = Inr (Some a)"
    and "property data ''newEndpoint'' = Some (JStr rawNew)"
    and "canonicalizeEndpoint (Some (JStr rawNew)) = Inr (Some a)"
    and "gui_method req = ''POST''" and "gui_path req = ''/update''"
    and "gui_body req = Some data"
  shows "mappings (snd (guiServer checkPortStatus writeFileSync s req)) =
           AList.delete a (mappings s) \<and>
         map_of (mappings (snd (guiServer checkPortStatus writeFileSync s req))) a = None \<and>
         fst (guiServer checkPortStatus Written s req) = respond_bare 200 ''OK'' \<and>
         fst (guiServer checkPortStatus (Failed left) s req) =
           respond_bare 400 ''Invalid JSON'' \<and>
         mappings (snd (guiServer_part_001 checkPortStatus writeFileSync s req)) =
           AList.delete a (mappings s) \<and>
         map_of (mappings (snd (guiServer_part_001 checkPortStatus writeFileSync s req))) a =
           None \<and>
         fst (guiServer_part_001 checkPortStatus Written s req) = respond_bare 200 ''OK'' \<and>
         fst (guiServer_part_001 checkPortStatus (Failed left) s req) =
           respond_bare 400 ''Invalid JSON''"
proof -
  note move = rename_action_move [OF assms(5,6,7,8,1)]
  show ?thesis
    by (simp add: guiServer_post_update [OF assms(9,10)] assms(11) update_rename [OF assms(4)]
        move move_endpoint_present [OF assms(3,2)] finish_mappings finish_written
        finish_failed delete_after_update AList.delete_conv')
qed

theorem rename_to_itself_deletes_witness:
  "isValidEndpoint ''/app'' \<and>
   map_of (mappings two_routes) ''/app'' = Some 8080 \<and>
   map_of (mappings two_routes) ''hasOwnProperty'' = None \<and>
   canonicalizeEndpoint (Some (JStr '' App '')) = Inr (Some ''/app'') \<and>
   canonicalizeEndpoint (Some (JStr ''/app'')) = Inr (Some ''/app'') \<and>
   AList.delete ''/app'' (mappings two_routes) = [(''/blog'', 3000)] \<and>
   fst (guiServer no_backend Written two_routes
     (post_update (JObj [(''action'', JStr ''rename''), (''oldEndpoint'', JStr '' App ''),
                         (''newEndpoint'', JStr ''/app'')]))) =
     \<lparr>status = 200, content_type = None, body = Text ''OK''\<rparr> \<and>
   mappings (snd (guiServer no_backend Written two_routes
     (post_update (JObj [(''action'', JStr ''rename''), (''oldEndpoint'', JStr '' App ''),
                         (''newEndpoint'', JStr ''/app'')])))) = [(''/blog'', 3000)] \<and>
   fst (guiServer_part_001 no_backend Written two_routes
     (post_update (JObj [(''action'', JStr ''rename''), (''oldEndpoint'', JStr '' App ''),
                         (''newEndpoint'', JStr ''/app'')]))) =
     \<lparr>status = 200, content_type = None, body = Text ''OK''\<rparr> \<and>
   mappings (snd (guiServer_part_001 no_backend Written two_routes
     (post_update (JObj [(''action'', JStr ''rename''), (''oldEndpoint'', JStr '' App ''),
                         (''newEndpoint'', JStr ''/app'')])))) = [(''/blog'', 3000)]"
proof -
  let ?data = "JObj [(''action'', JStr ''rename''), (''oldEndpoint'', JStr '' App ''),
                     (''newEndpoint'', JStr ''/app'')]"
  have valid: "isValidEndpoint ''/app''" by (simp add: run_string)
  have present: "map_of (mappings two_routes) ''/app'' = Some 8080"
    "map_of (mappings two_routes) ''hasOwnProperty'' = None"
    by (simp_all add: two_routes_def)
  have rest: "AList.delete ''/app'' (mappings two_routes) = [(''/blog'', 3000)]"
    by (simp add: two_routes_def AList.delete_eq)
  have c1: "canonicalizeEndpoint (Some (JStr '' App '')) = Inr (Some ''/app'')"
    by (simp add: run_string run_json)
  have c2: "canonicalizeEndpoint (Some (JStr ''/app'')) = Inr (Some ''/app'')"
    by (simp add: run_string run_json)
  show ?thesis
    using rename_to_itself_deletes [of "''/app''" two_routes 8080 ?data "'' App ''" "''/app''"
        "post_update ?data" no_backend Written None] valid present rest c1 c2
    by (simp add: property_def post_update_def respond_bare_def)
qed

text \<open>
  The answer is not always 200: \<^verbatim>\<open>saveMappings()\<close> runs inside the \<^verbatim>\<open>try\<close>, so when the
  write of the file fails the same request is answered 400 \<^verbatim>\<open>Invalid JSON\<close>, with the
  endpoint already removed from the table in memory.
\<close>

theorem rename_to_itself_counterexample:
  "guiServer no_backend (Failed None) two_routes
     (post_update (JObj [(''action'', JStr ''rename''), (''oldEndpoint'', JStr '' App ''),
                         (''newEndpoint'', JStr ''/app'')])) =
     (\<lparr>status = 400, content_type = None, body = Text ''Invalid JSON''\<rparr>,
      \<lparr>mappings = [(''/blog'', 3000)], html = ''<html></html>'', disk = None, writes = 0\<rparr>) \<and>
   guiServer_part_001 no_backend (Failed None) two_routes
     (post_update (JObj [(''action'', JStr ''rename''), (''oldEndpoint'', JStr '' App ''),
                         (''newEndpoint'', JStr ''/app'')])) =
     (\<lparr>status = 400, content_type = None, body = Text ''Invalid JSON''\<rparr>,
      \<lparr>mappings = [(''/blog'', 3000)], html = ''<html></html>'', disk = None, writes = 0\<rparr>)"
  by (simp add: run_update run_json run_string AList.delete_eq)

text \<open>
  C10 (as amended): an update whose body parses to a JSON value other than \<^verbatim>\<open>null\<close> and
  whose \<^verbatim>\<open>action\<close> is none of \<^verbatim>\<open>add\<close>, \<^verbatim>\<open>delete\<close> and \<^verbatim>\<open>rename\<close> leaves the table unchanged
  in both admin servers, and when the write of the file succeeds it is answered 200
  \<^verbatim>\<open>OK\<close> and the unchanged table has been written to the file once more.
\<close>

theorem unknown_action_saves:
  assumes "data \<noteq> JNull"
    and "property data ''action'' \<noteq> Some (JStr ''add'')"
    and "property data ''action'' \<noteq> Some (JStr ''delete'')"
    and "property data ''action'' \<noteq> Some (JStr ''rename'')"
    and "gui_method req = ''POST''" and "gui_path req = ''/update''"
    and "gui_body req = Some data"
  shows "guiServer checkPortStatus Written s req =
           (respond_bare 200 ''OK'', s\<lparr>disk := Some (mappings s), writes := Suc (writes s)\<rparr>) \<and>
         mappings (snd (guiServer checkPortStatus writeFileSync s req)) = mappings s \<and>
         guiServer_part_001 checkPortStatus Written s req =
           (respond_bare 200 ''OK'', s\<lparr>disk := Some (mappings s), writes := Suc (writes s)\<rparr>) \<and>
         mappings (snd (guiServer_part_001 checkPortStatus writeFileSync s req)) = mappings s"
  by (simp add: guiServer_post_update [OF assms(5,6)] assms(7) update_other [OF assms(1-4)]
      finish_mappings finish_written)

theorem unknown_action_saves_witness:
  "guiServer no_backend Written one_route (post_update (JObj [(''action'', JStr ''purge'')])) =
     (\<lparr>status = 200, content_type = None, body = Text ''OK''\<rparr>,
      \<lparr>mappings = [(''/app'', 8080)], html = ''<html></html>'',
       disk = Some [(''/app'', 8080)], writes = 1\<rparr>) \<and>
   guiServer_part_001 no_backend Written one_route
     (post_update (JObj [(''action'', JStr ''purge'')])) =
     (\<lparr>status = 200, content_type = None, body = Text ''OK''\<rparr>,
      \<lparr>mappings = [(''/app'', 8080)], html = ''<html></html>'',
       disk = Some [(''/app'', 8080)], writes = 1\<rparr>)"
  using unknown_action_saves [of "JObj [(''action'', JStr ''purge'')]"
      "post_update (JObj [(''action'', JStr ''purge'')])" no_backend one_route Written]
  by (simp add: property_def post_update_def respond_bare_def one_route_def)

text \<open>
  Both provisos are needed. The body \<^verbatim>\<open>null\<close> is well-formed JSON without an action, and
  reading \<^verbatim>\<open>data.action\<close> throws: the answer is 400 \<^verbatim>\<open>Invalid JSON\<close> and nothing is written.
  And when the write of the file fails, an unknown action is answered 400
  \<^verbatim>\<open>Invalid JSON\<close> as well.
\<close>

theorem unknown_action_counterexample:
  "guiServer no_backend Written one_route (post_update JNull) =
     (\<lparr>status = 400, content_type = None, body = Text ''Invalid JSON''\<rparr>, one_route) \<and>
   guiServer_part_001 no_backend Written one_route (post_update JNull) =
     (\<lparr>status = 400, content_type = None, body = Text ''Invalid JSON''\<rparr>, one_route) \<and>
   guiServer no_backend (Failed None) one_route
     (post_update (JObj [(''action'', JStr ''purge'')])) =
     (\<lparr>status = 400, content_type = None, body = Text ''Invalid JSON''\<rparr>, one_route) \<and>
   guiServer_part_001 no_backend (Failed None) one_route
     (post_update (JObj [(''action'', JStr ''purge'')])) =
     (\<lparr>status = 400, content_type = None, body = Text ''Invalid JSON''\<rparr>, one_route)"
  by (simp add: run_update run_json)

end
